theory Spec2Isabelle
  imports Main "HOL-Library.Word"
begin

section \<open>JavaScript values and the conversions the module relies on\<close>

text \<open>
  The values that reach \<^verbatim>\<open>lib/internal/errors.js\<close> as keys, as registered
  templates and as constructor arguments. A \<open>JObject\<close> is a plain object with the
  default \<^verbatim>\<open>toString\<close>. Function values are kept apart (type \<open>jsfun\<close>): the
  module only ever stores them as templates and calls them.

  A number is an integer from \<^verbatim>\<open>-2^53\<close> to \<^verbatim>\<open>2^53 - 1\<close>, carried by a 54-bit
  word that is read as signed (\<open>sint\<close>); no arithmetic is done on it. Each of these
  integers is a number of the language exactly, none is \<^verbatim>\<open>NaN\<close> or \<^verbatim>\<open>-0\<close>, and the
  language prints each with all its decimal digits.
\<close>

datatype jsval =
    JUndefined
  | JNull
  | JBool bool
  | JNum "54 word"
  | JStr string
  | JSymbol string
  | JArray "jsval list"
  | JObject

text \<open>
  What a call can throw: an \<^verbatim>\<open>AssertionError\<close> of the assert module (with the
  message the caller passed, or \<open>None\<close> when the assert module generates it from
  the compared values), a \<^verbatim>\<open>TypeError\<close> of the language, or any value thrown by a
  template function.
\<close>

datatype error =
    AssertionError "string option"
  | TypeError
  | Thrown jsval

type_synonym jsfun = "jsval list \<Rightarrow> error + jsval"

definition bindE :: "error + 'a \<Rightarrow> ('a \<Rightarrow> error + 'b) \<Rightarrow> error + 'b" where
  "bindE r k = (case r of Inl e \<Rightarrow> Inl e | Inr v \<Rightarrow> k v)"

fun mapE :: "('a \<Rightarrow> error + 'b) \<Rightarrow> 'a list \<Rightarrow> error + 'b list" where
  "mapE f [] = Inr []"
| "mapE f (x # xs) =
     (case f x of
        Inl e \<Rightarrow> Inl e
      | Inr y \<Rightarrow> (case mapE f xs of Inl e \<Rightarrow> Inl e | Inr ys \<Rightarrow> Inr (y # ys)))"

text \<open>The \<^verbatim>\<open>typeof\<close> operator.\<close>

fun typeof :: "jsval \<Rightarrow> string" where
  "typeof JUndefined = ''undefined''"
| "typeof JNull = ''object''"
| "typeof (JBool b) = ''boolean''"
| "typeof (JNum n) = ''number''"
| "typeof (JStr s) = ''string''"
| "typeof (JSymbol d) = ''symbol''"
| "typeof (JArray xs) = ''object''"
| "typeof JObject = ''object''"

text \<open>Truthiness, as \<^verbatim>\<open>assert(value, message)\<close> tests it.\<close>

fun truthy :: "jsval \<Rightarrow> bool" where
  "truthy JUndefined = False"
| "truthy JNull = False"
| "truthy (JBool b) = b"
| "truthy (JNum n) = (n \<noteq> 0)"
| "truthy (JStr s) = (s \<noteq> [])"
| "truthy (JSymbol d) = True"
| "truthy (JArray xs) = True"
| "truthy JObject = True"

text \<open>
  Decimal rendering of an integer; \<open>ToString\<close> calls it on the integers a \<open>JNum\<close>
  carries only.
\<close>

definition digit_char :: "nat \<Rightarrow> char" where
  "digit_char d = ''0123456789'' ! d"

fun digits :: "nat \<Rightarrow> string" where
  "digits n = (if n < 10 then [digit_char n] else digits (n div 10) @ [digit_char (n mod 10)])"

declare digits.simps [simp del]

definition num_to_string :: "int \<Rightarrow> string" where
  "num_to_string i = (if i < 0 then CHR ''-'' # digits (nat (- i)) else digits (nat i))"

text \<open>\<^verbatim>\<open>Array.prototype.join\<close> on strings already converted.\<close>

fun join :: "string \<Rightarrow> string list \<Rightarrow> string" where
  "join sep [] = []"
| "join sep [s] = s"
| "join sep (s # t # ts) = s @ sep @ join sep (t # ts)"

text \<open>
  The abstract operation ToString, which a template literal applies to each
  substitution: it throws a \<^verbatim>\<open>TypeError\<close> on a symbol, and renders an array by joining
  its elements with a comma, \<^verbatim>\<open>undefined\<close> and \<^verbatim>\<open>null\<close> elements as the empty string.
\<close>

primrec ToString :: "jsval \<Rightarrow> error + string"
  and ToString_elements :: "jsval list \<Rightarrow> error + string list" where
  "ToString JUndefined = Inr ''undefined''"
| "ToString JNull = Inr ''null''"
| "ToString (JBool b) = Inr (if b then ''true'' else ''false'')"
| "ToString (JNum n) = Inr (num_to_string (sint n))"
| "ToString (JStr s) = Inr s"
| "ToString (JSymbol d) = Inl TypeError"
| "ToString (JArray xs) =
     (case ToString_elements xs of Inl e \<Rightarrow> Inl e | Inr ss \<Rightarrow> Inr (join '','' ss))"
| "ToString JObject = Inr ''[object Object]''"
| "ToString_elements [] = Inr []"
| "ToString_elements (x # xs) =
     (case (if x = JUndefined \<or> x = JNull then Inr [] else ToString x) of
        Inl e \<Rightarrow> Inl e
      | Inr s \<Rightarrow> (case ToString_elements xs of Inl e \<Rightarrow> Inl e | Inr ss \<Rightarrow> Inr (s # ss)))"

text \<open>The function \<^verbatim>\<open>String(value)\<close>: ToString, except that a symbol is described.\<close>

definition String_js :: "jsval \<Rightarrow> error + string" where
  "String_js v =
     (case v of JSymbol d \<Rightarrow> Inr (''Symbol('' @ d @ '')'') | _ \<Rightarrow> ToString v)"

text \<open>The assert module, as far as the module calls it.\<close>

definition assert_strictEqual :: "string \<Rightarrow> string \<Rightarrow> error + unit" where
  "assert_strictEqual actual expected =
     (if actual = expected then Inr () else Inl (AssertionError None))"

definition assert_ok :: "bool \<Rightarrow> string \<Rightarrow> error + unit" where
  "assert_ok v m = (if v then Inr () else Inl (AssertionError (Some m)))"

section \<open>The registry: \<^verbatim>\<open>messages\<close>, \<^verbatim>\<open>E\<close> and \<^verbatim>\<open>message\<close>\<close>

text \<open>
  \<^verbatim>\<open>messages\<close> is a \<^verbatim>\<open>Map\<close> whose values are strings or functions. \<^verbatim>\<open>E\<close> stores a
  function as it is and anything else through \<^verbatim>\<open>String\<close>.
\<close>

datatype template = TStr string | TFun jsfun

datatype regval = RFun jsfun | RVal jsval

type_synonym registry = "jsval \<rightharpoonup> template"

definition E :: "registry \<Rightarrow> jsval \<Rightarrow> regval \<Rightarrow> error + registry" where
  "E messages symk val =
     (case val of
        RFun f \<Rightarrow> Inr (messages(symk \<mapsto> TFun f))
      | RVal v \<Rightarrow> bindE (String_js v) (\<lambda>s. Inr (messages(symk \<mapsto> TStr s))))"

text \<open>A run of registrations, in order; it stops at the first one that throws.\<close>

fun E_all :: "registry \<Rightarrow> (jsval \<times> regval) list \<Rightarrow> error + registry" where
  "E_all messages [] = Inr messages"
| "E_all messages ((symk, val) # rs) = bindE (E messages symk val) (\<lambda>m. E_all m rs)"

text \<open>
  The arguments \<^verbatim>\<open>fmt.apply(null, args)\<close> passes: none when \<^verbatim>\<open>args\<close> is
  \<^verbatim>\<open>undefined\<close>.
\<close>

fun actuals :: "jsval list option \<Rightarrow> jsval list" where
  "actuals None = []"
| "actuals (Some xs) = xs"

text \<open>
  \<^verbatim>\<open>message(key, args)\<close>. The first parameter is \<^verbatim>\<open>util.format\<close>, which the module
  takes from the host. \<^verbatim>\<open>args\<close> is \<open>None\<close> for \<^verbatim>\<open>undefined\<close> and otherwise the
  contents of the caller's array. The result pairs the outcome of the call with the
  contents of that array when the call ends, since \<^verbatim>\<open>args.unshift(msg)\<close> writes to it.
\<close>

definition message ::
  "jsfun \<Rightarrow> registry \<Rightarrow> jsval \<Rightarrow> jsval list option \<Rightarrow> (error + string) \<times> jsval list option"
where
  "message util_format messages key args =
     (case assert_strictEqual (typeof key) ''string'' of
        Inl e \<Rightarrow> (Inl e, args)
      | Inr _ \<Rightarrow>
         (case ToString key of
            Inl e \<Rightarrow> (Inl e, args)
          | Inr k \<Rightarrow>
             (let invalid = ''An invalid error message key was used: '' @ k @ ''.'' in
              case messages key of
                None \<Rightarrow> (Inl (AssertionError (Some invalid)), args)
              | Some (TFun f) \<Rightarrow> (bindE (f (actuals args)) String_js, args)
              | Some (TStr msg) \<Rightarrow>
                 (case assert_ok (truthy (JStr msg)) invalid of
                    Inl e \<Rightarrow> (Inl e, args)
                  | Inr _ \<Rightarrow>
                     (case args of
                        None \<Rightarrow> (Inr msg, args)
                      | Some xs \<Rightarrow>
                         if length xs = 0 then (Inr msg, args)
                         else (bindE (util_format (JStr msg # xs)) String_js,
                               Some (JStr msg # xs)))))))"

text \<open>The string or exception a call of \<^verbatim>\<open>message\<close> produces.\<close>

definition resolve :: "jsfun \<Rightarrow> registry \<Rightarrow> jsval \<Rightarrow> jsval list option \<Rightarrow> error + string" where
  "resolve util_format messages key args = fst (message util_format messages key args)"

section \<open>The templates the module registers\<close>

text \<open>The \<open>i\<close>-th actual parameter of a call; a missing one is \<^verbatim>\<open>undefined\<close>.\<close>

definition param :: "jsval list \<Rightarrow> nat \<Rightarrow> jsval" where
  "param args i = (if i < length args then args ! i else JUndefined)"

text \<open>
  \<^verbatim>\<open>invalidArgType(name, expected, actual)\<close>, called with the argument list \<open>args\<close>
  (\<^verbatim>\<open>arguments.length\<close> is its length). For an array \<^verbatim>\<open>expected\<close> of length at most one,
  \<^verbatim>\<open>expected[0]\<close> is the converted element, or \<^verbatim>\<open>undefined\<close> when the array is empty.
\<close>

definition invalidArgType :: jsfun where
  \<open>invalidArgType args =
     (let name = param args 0; expected = param args 1; actual = param args 2 in
      bindE (assert_ok (truthy name) ''name is required'') (\<lambda>_.
      bindE (assert_ok (truthy expected) ''expected is required'') (\<lambda>_.
      bindE (ToString name) (\<lambda>n.
      let msg = ''The "'' @ n @ ''" argument must be '' in
      bindE
        (case expected of
           JArray es \<Rightarrow>
             (let len = length es in
              bindE (mapE String_js es) (\<lambda>ss.
                if len > 1 then
                  Inr (msg @ ''one of type '' @ join '', '' (take (len - 1) ss) @ '', or '' @
                       ss ! (len - 1))
                else
                  Inr (msg @ ''type '' @ (case ss of [] \<Rightarrow> ''undefined'' | s0 # _ \<Rightarrow> s0))))
         | _ \<Rightarrow> bindE (String_js expected) (\<lambda>s. Inr (msg @ ''type '' @ s)))
        (\<lambda>msg.
           if length args \<ge> 3 then
             Inr (JStr (msg @ ''. Received type '' @
                        (if actual \<noteq> JNull then typeof actual else ''null'')))
           else Inr (JStr msg))))))\<close>

text \<open>\<^verbatim>\<open>invalidArgValue(name, expected, actual)\<close>.\<close>

definition invalidArgValue :: jsfun where
  \<open>invalidArgValue args =
     (let name = param args 0; expected = param args 1; actual = param args 2 in
      bindE (assert_ok (truthy name) ''name is required'') (\<lambda>_.
      bindE (assert_ok (truthy expected) ''expected is required'') (\<lambda>_.
      bindE (ToString name) (\<lambda>n.
      let msg = ''The "'' @ n @ ''" argument must be '' in
      bindE
        (case expected of
           JArray es \<Rightarrow>
             (let len = length es in
              bindE (mapE String_js es) (\<lambda>ss.
                if len > 1 then
                  Inr (msg @ join '', '' (take (len - 1) ss) @ '', or '' @ ss ! (len - 1))
                else
                  Inr (msg @ (case ss of [] \<Rightarrow> ''undefined'' | s0 # _ \<Rightarrow> s0))))
         | _ \<Rightarrow> bindE (String_js expected) (\<lambda>s. Inr (msg @ s)))
        (\<lambda>msg.
           if length args \<ge> 3 then
             Inr (JStr (msg @ ''. Received '' @
                        (if actual \<noteq> JNull then typeof actual else ''null'')))
           else Inr (JStr msg))))))\<close>

text \<open>The arrow functions registered in place.\<close>

definition tmpl_ERR_ASSERTION :: jsfun where
  "tmpl_ERR_ASSERTION args = Inr (param args 0)"

definition tmpl_ERR_INVALID_FLAG :: jsfun where
  "tmpl_ERR_INVALID_FLAG args =
     bindE (ToString (param args 0)) (\<lambda>a. Inr (JStr (a @ '' must use valid flags'')))"

definition tmpl_ERR_INVALID_IP :: jsfun where
  \<open>tmpl_ERR_INVALID_IP args =
     bindE (ToString (param args 0)) (\<lambda>a.
     bindE (ToString (param args 1)) (\<lambda>ip.
       Inr (JStr (''"'' @ a @ ''" argument must be a valid IP address, got '' @ ip))))\<close>

definition tmpl_ERR_INVALID_PORT :: jsfun where
  \<open>tmpl_ERR_INVALID_PORT args =
     bindE (ToString (param args 0)) (\<lambda>a.
     bindE (ToString (param args 1)) (\<lambda>port.
       Inr (JStr (''"'' @ a @ ''" argument must be >= 0 and < 65536, got '' @ port))))\<close>

definition tmpl_ERR_SETTING_SERVERS :: jsfun where
  \<open>tmpl_ERR_SETTING_SERVERS args =
     bindE (ToString (param args 0)) (\<lambda>err.
     bindE (ToString (param args 1)) (\<lambda>servers.
       Inr (JStr (''c-ares failed to set servers: "'' @ err @ ''" ['' @ servers @ '']''))))\<close>

text \<open>The calls of \<^verbatim>\<open>E\<close> the module makes when it is loaded, on the empty map.\<close>

definition module_registrations :: "(jsval \<times> regval) list" where
  "module_registrations =
     [(JStr ''ERR_ASSERTION'', RFun tmpl_ERR_ASSERTION),
      (JStr ''ERR_INVALID_ARGS'', RVal (JStr ''invalid arguments'')),
      (JStr ''ERR_INVALID_ARG_TYPE'', RFun invalidArgType),
      (JStr ''ERR_INVALID_ARG_VALUE'', RFun invalidArgValue),
      (JStr ''ERR_INVALID_CALLBACK'', RVal (JStr ''callback must be a function'')),
      (JStr ''ERR_INVALID_FLAG'', RFun tmpl_ERR_INVALID_FLAG),
      (JStr ''ERR_INVALID_IP'', RFun tmpl_ERR_INVALID_IP),
      (JStr ''ERR_INVALID_PORT'', RFun tmpl_ERR_INVALID_PORT),
      (JStr ''ERR_SETTING_SERVERS'', RFun tmpl_ERR_SETTING_SERVERS)]"

definition module_messages :: "error + registry" where
  "module_messages = E_all Map.empty module_registrations"

section \<open>\<^verbatim>\<open>makeNodeError\<close>\<close>

text \<open>
  A base error kind, as far as the class reads it: the \<^verbatim>\<open>name\<close> its prototype holds.
  Its constructor stores the message it is given as the own property \<^verbatim>\<open>message\<close>.
\<close>

record base_kind =
  proto_name :: string

definition Error_kind :: base_kind where
  "Error_kind = \<lparr>proto_name = ''Error''\<rparr>"

definition TypeError_kind :: base_kind where
  "TypeError_kind = \<lparr>proto_name = ''TypeError''\<rparr>"

definition RangeError_kind :: base_kind where
  "RangeError_kind = \<lparr>proto_name = ''RangeError''\<rparr>"

text \<open>
  An instance of the class \<^verbatim>\<open>makeNodeError(Base)\<close> returns: the base kind it extends,
  its own data properties under string names, and its own property under the
  module's private symbol \<^verbatim>\<open>kCode\<close>.
\<close>

record node_error =
  base :: base_kind
  own :: "string \<rightharpoonup> jsval"
  kCode :: jsval

text \<open>
  The constructor, \<^verbatim>\<open>new (makeNodeError(Base))(key, ...args)\<close>. The rest parameter is
  a fresh array, so what \<^verbatim>\<open>message\<close> writes to it is not seen outside. \<open>stack\<close> is
  the trace \<^verbatim>\<open>Error.captureStackTrace\<close> stores, which the host determines.
\<close>

definition makeNodeError ::
  "jsfun \<Rightarrow> registry \<Rightarrow> string \<Rightarrow> base_kind \<Rightarrow> jsval \<Rightarrow> jsval list \<Rightarrow> error + node_error"
where
  "makeNodeError util_format messages stack Base key args =
     (case fst (message util_format messages key (Some args)) of
        Inl e \<Rightarrow> Inl e
      | Inr m \<Rightarrow>
          Inr \<lparr>base = Base,
               own = [''message'' \<mapsto> JStr m, ''stack'' \<mapsto> JStr stack],
               kCode = key\<rparr>)"

text \<open>The bodies of the two getters.\<close>

definition get_name :: "node_error \<Rightarrow> error + jsval" where
  "get_name this =
     bindE (ToString (kCode this)) (\<lambda>c.
       Inr (JStr (proto_name (base this) @ ''['' @ c @ '']'')))"

definition get_code :: "node_error \<Rightarrow> error + jsval" where
  "get_code this = Inr (kCode this)"

text \<open>
  Reading \<^verbatim>\<open>e.name\<close>, \<^verbatim>\<open>e.code\<close> and \<^verbatim>\<open>e.message\<close>: an own data property is found
  first; failing that, the accessor of the class for the first two, and for the third
  the default of the base prototype, the empty string.
\<close>

definition read_name :: "node_error \<Rightarrow> error + jsval" where
  "read_name e = (case own e ''name'' of Some v \<Rightarrow> Inr v | None \<Rightarrow> get_name e)"

definition read_code :: "node_error \<Rightarrow> error + jsval" where
  "read_code e = (case own e ''code'' of Some v \<Rightarrow> Inr v | None \<Rightarrow> get_code e)"

definition read_message :: "node_error \<Rightarrow> error + jsval" where
  "read_message e = (case own e ''message'' of Some v \<Rightarrow> Inr v | None \<Rightarrow> Inr (JStr []))"

text \<open>
  The assignment \<^verbatim>\<open>e.code = v\<close> from outside the module. An own data property
  of that name would be overwritten. Otherwise the lookup finds \<^verbatim>\<open>code\<close> on the class
  as an accessor with no setter: the assignment throws in strict code and does nothing
  in sloppy code.
\<close>

definition set_code :: "bool \<Rightarrow> node_error \<Rightarrow> jsval \<Rightarrow> error + node_error" where
  "set_code strict e v =
     (if ''code'' \<in> dom (own e) then Inr (e\<lparr>own := (own e)(''code'' \<mapsto> v)\<rparr>)
      else if strict then Inl TypeError
      else Inr e)"

text \<open>
  The instance after an attempted assignment to \<^verbatim>\<open>code\<close> (strictness of the
  assigning code, value), and after a run of them; an attempt that throws leaves the
  instance as it was.
\<close>

definition attempt :: "node_error \<Rightarrow> bool \<times> jsval \<Rightarrow> node_error" where
  "attempt e w =
     (case w of (strict, v) \<Rightarrow>
        (case set_code strict e v of Inl _ \<Rightarrow> e | Inr e' \<Rightarrow> e'))"

definition attempts :: "node_error \<Rightarrow> (bool \<times> jsval) list \<Rightarrow> node_error" where
  "attempts e ws = foldl attempt e ws"

section \<open>Basic facts\<close>

lemma typeof_string_iff: "typeof k = ''string'' \<longleftrightarrow> (\<exists>s. k = JStr s)"
  by (cases k) simp_all

lemma String_js_JStr: "String_js (JStr s) = Inr s"
  by (simp add: String_js_def)

text \<open>The integers a \<open>JNum\<close> carries.\<close>

lemma JNum_carrier_range: "- (2 ^ 53) \<le> sint (n :: 54 word) \<and> sint n < 2 ^ 53"
  using sint_ge [of n] sint_lt [of n] by simp

subsection \<open>Registration\<close>

lemma E_string: "E m k (RVal (JStr S)) = Inr (m(k \<mapsto> TStr S))"
  by (simp add: E_def bindE_def String_js_def)

lemma E_fun: "E m k (RFun f) = Inr (m(k \<mapsto> TFun f))"
  by (simp add: E_def)

lemma E_other_key: "E m c val = Inr m' \<Longrightarrow> k \<noteq> c \<Longrightarrow> m' k = m k"
  by (auto simp: E_def bindE_def split: regval.splits sum.splits)

lemma E_succeeds_anywhere:
  "E m c val = Inr m1 \<Longrightarrow> \<exists>m3. E m' c val = Inr m3 \<and> m3 c = m1 c"
  by (auto simp: E_def bindE_def split: regval.splits sum.splits)

lemma E_twice: "E m c val = Inr m1 \<Longrightarrow> E m1 c val = Inr m1"
  by (auto simp: E_def bindE_def split: regval.splits sum.splits)

text \<open>A run of registrations leaves every key it does not name as it was.\<close>

lemma E_all_other_keys:
  "E_all m rs = Inr m' \<Longrightarrow> k \<notin> fst ` set rs \<Longrightarrow> m' k = m k"
proof (induction rs arbitrary: m)
  case Nil
  then show ?case by simp
next
  case (Cons r rs)
  obtain c val where r: "r = (c, val)" by (cases r)
  from Cons.prems(1) r obtain m1 where
    m1: "E m c val = Inr m1" and rest: "E_all m1 rs = Inr m'"
    by (auto simp: bindE_def split: sum.splits)
  from Cons.prems(2) r have "k \<noteq> c" and "k \<notin> fst ` set rs" by auto
  with Cons.IH [OF rest] E_other_key [OF m1] show ?case by simp
qed

lemma registered_lookup:
  assumes "E m0 k val = Inr m1" and "E_all m1 rs = Inr msgs" and "k \<notin> fst ` set rs"
  shows "msgs k = m1 k"
  using E_all_other_keys [OF assms(2,3)] .

subsection \<open>The branches of \<^verbatim>\<open>message\<close>\<close>

lemma message_nonstring:
  "typeof k \<noteq> ''string'' \<Longrightarrow> message fmt msgs k args = (Inl (AssertionError None), args)"
  by (simp add: message_def assert_strictEqual_def)

lemma message_unregistered:
  "msgs (JStr C) = None \<Longrightarrow>
   message fmt msgs (JStr C) args =
     (Inl (AssertionError (Some (''An invalid error message key was used: '' @ C @ ''.''))), args)"
  by (simp add: message_def assert_strictEqual_def)

lemma message_TFun:
  "msgs (JStr C) = Some (TFun f) \<Longrightarrow>
   message fmt msgs (JStr C) args = (bindE (f (actuals args)) String_js, args)"
  by (simp add: message_def assert_strictEqual_def)

lemma message_TStr_empty:
  "msgs (JStr C) = Some (TStr []) \<Longrightarrow>
   message fmt msgs (JStr C) args =
     (Inl (AssertionError (Some (''An invalid error message key was used: '' @ C @ ''.''))), args)"
  by (simp add: message_def assert_strictEqual_def assert_ok_def)

lemma message_TStr_no_args:
  "msgs (JStr C) = Some (TStr S) \<Longrightarrow> S \<noteq> [] \<Longrightarrow> args = None \<or> args = Some [] \<Longrightarrow>
   message fmt msgs (JStr C) args = (Inr S, args)"
  by (auto simp: message_def assert_strictEqual_def assert_ok_def)

lemma message_TStr_args:
  "msgs (JStr C) = Some (TStr S) \<Longrightarrow> S \<noteq> [] \<Longrightarrow> xs \<noteq> [] \<Longrightarrow>
   message fmt msgs (JStr C) (Some xs) =
     (bindE (fmt (JStr S # xs)) String_js, Some (JStr S # xs))"
  by (simp add: message_def assert_strictEqual_def assert_ok_def)

text \<open>\<^verbatim>\<open>message\<close> reads the map at its key only.\<close>

lemma message_cong_key:
  "m k = m' k \<Longrightarrow> message fmt m k args = message fmt m' k args"
  unfolding message_def by (simp split: sum.splits)

lemma resolve_success_string_key:
  assumes ok: "resolve fmt msgs key args = Inr m"
  shows "\<exists>C. key = JStr C \<and> msgs key \<noteq> None"
proof -
  have "typeof key = ''string''"
  proof (rule ccontr)
    assume "typeof key \<noteq> ''string''"
    from message_nonstring [OF this] ok show False by (simp add: resolve_def)
  qed
  then obtain C where C: "key = JStr C" by (auto simp: typeof_string_iff)
  have "msgs (JStr C) \<noteq> None"
  proof
    assume "msgs (JStr C) = None"
    from message_unregistered [of msgs C fmt args, OF this] ok C show False
      by (simp add: resolve_def)
  qed
  with C show ?thesis by simp
qed

subsection \<open>Instances\<close>

lemma makeNodeError_success:
  "resolve fmt msgs key (Some args) = Inr m \<Longrightarrow>
   makeNodeError fmt msgs stack Base key args =
     Inr \<lparr>base = Base, own = [''message'' \<mapsto> JStr m, ''stack'' \<mapsto> JStr stack], kCode = key\<rparr>"
  by (simp add: makeNodeError_def resolve_def)

lemma set_code_kept:
  "set_code strict e v = Inr e' \<Longrightarrow>
   kCode e' = kCode e \<and> (own e ''code'' = None \<longrightarrow> own e' ''code'' = None)"
  by (auto simp: set_code_def dom_def split: if_splits)

lemma attempt_code_kept:
  "kCode (attempt e w) = kCode e \<and>
   (own e ''code'' = None \<longrightarrow> own (attempt e w) ''code'' = None)"
proof -
  obtain strict v where w: "w = (strict, v)" by (cases w)
  show ?thesis
  proof (cases "set_code strict e v")
    case (Inl err)
    with w show ?thesis by (simp add: attempt_def)
  next
    case (Inr e')
    with w set_code_kept [OF Inr] show ?thesis by (simp add: attempt_def)
  qed
qed

lemma attempts_code_kept:
  "own e ''code'' = None \<Longrightarrow>
   kCode (attempts e ws) = kCode e \<and> own (attempts e ws) ''code'' = None"
proof (induction ws arbitrary: e)
  case Nil
  then show ?case by (simp add: attempts_def)
next
  case (Cons w ws)
  from Cons.prems attempt_code_kept [of e w]
  have step: "kCode (attempt e w) = kCode e" "own (attempt e w) ''code'' = None"
    by simp_all
  from Cons.IH [OF step(2)] step(1) show ?case
    by (simp add: attempts_def)
qed

subsection \<open>The module's own registrations\<close>

lemma module_messages_lookup:
  "\<exists>msgs. module_messages = Inr msgs \<and>
     msgs (JStr ''ERR_INVALID_ARG_TYPE'') = Some (TFun invalidArgType)"
  by (simp add: module_messages_def module_registrations_def E_def bindE_def String_js_def)

lemma invalidArgType_example:
  \<open>invalidArgType [JStr ''name'', JStr ''string'', JNum 5] =
     Inr (JStr ''The "name" argument must be type string. Received type number'')\<close>
  by (simp add: invalidArgType_def param_def assert_ok_def bindE_def String_js_def)

section \<open>Resolution of fixed-string templates without arguments\<close>

text \<open>
  Claim C1 says that every code registered with a fixed string resolves, without
  arguments, to that string. The module accepts any string as a template (``The val
  can be either a function or a string'', and \<^verbatim>\<open>E\<close> stores it), but \<^verbatim>\<open>message\<close>
  checks that the key is registered by testing the stored value for truthiness
  (\<^verbatim>\<open>assert(msg, ...)\<close>), and the empty string is falsy. At the input
  \<^verbatim>\<open>E('EMPTY', ''); message('EMPTY', [])\<close> the code therefore throws the assertion
  error ``An invalid error message key was used: EMPTY.'' for a key that is registered,
  and does not return the empty string.
\<close>

theorem resolve_empty_template_no_args_fails:
  "E Map.empty (JStr ''EMPTY'') (RVal (JStr '''')) = Inr [JStr ''EMPTY'' \<mapsto> TStr ''''] \<and>
   resolve tmpl_ERR_ASSERTION [JStr ''EMPTY'' \<mapsto> TStr ''''] (JStr ''EMPTY'') (Some []) =
     Inl (AssertionError (Some ''An invalid error message key was used: EMPTY.'')) \<and>
   resolve tmpl_ERR_ASSERTION [JStr ''EMPTY'' \<mapsto> TStr ''''] (JStr ''EMPTY'') (Some []) \<noteq> Inr ''''"
  by (simp add: E_string resolve_def message_TStr_empty)

text \<open>
  The sibling path has no such gap: a function template that returns the empty string
  resolves to the empty string.
\<close>

lemma resolve_function_template_empty_result:
  assumes "msgs (JStr C) = Some (TFun f)" and "f (actuals args) = Inr (JStr [])"
  shows "resolve fmt msgs (JStr C) args = Inr []"
  using assms by (simp add: resolve_def message_TFun bindE_def String_js_JStr)

text \<open>
  On every non-empty template the code does what is said: if the code \<open>C\<close> was
  registered with the non-empty fixed string \<open>S\<close> and no later registration names
  \<open>C\<close>, then \<^verbatim>\<open>message(C, [])\<close> and \<^verbatim>\<open>message(C)\<close> (arguments absent) both
  return exactly \<open>S\<close>, whatever the formatter is.
\<close>

theorem resolve_fixed_string_no_args:
  assumes "E m0 (JStr C) (RVal (JStr S)) = Inr m1"
    and "E_all m1 rs = Inr msgs"
    and "JStr C \<notin> fst ` set rs"
    and "S \<noteq> []"
  shows "resolve fmt msgs (JStr C) (Some []) = Inr S \<and> resolve fmt msgs (JStr C) None = Inr S"
proof -
  from assms(1) have "m1 (JStr C) = Some (TStr S)"
    by (auto simp: E_string)
  with registered_lookup [OF assms(1-3)] have stored: "msgs (JStr C) = Some (TStr S)"
    by simp
  from stored assms(4) show ?thesis
    by (simp add: resolve_def message_TStr_no_args)
qed

theorem resolve_fixed_string_no_args_witness:
  "E Map.empty (JStr ''GREETING'') (RVal (JStr ''hello'')) =
     Inr [JStr ''GREETING'' \<mapsto> TStr ''hello''] \<and>
   E_all [JStr ''GREETING'' \<mapsto> TStr ''hello''] [(JStr ''OTHER'', RVal (JNum 7))] =
     Inr [JStr ''GREETING'' \<mapsto> TStr ''hello'', JStr ''OTHER'' \<mapsto> TStr ''7''] \<and>
   JStr ''GREETING'' \<notin> fst ` set [(JStr ''OTHER'', RVal (JNum 7))] \<and>
   ''hello'' \<noteq> [] \<and>
   resolve tmpl_ERR_ASSERTION [JStr ''GREETING'' \<mapsto> TStr ''hello'', JStr ''OTHER'' \<mapsto> TStr ''7'']
     (JStr ''GREETING'') (Some []) = Inr ''hello'' \<and>
   resolve tmpl_ERR_ASSERTION [JStr ''GREETING'' \<mapsto> TStr ''hello'', JStr ''OTHER'' \<mapsto> TStr ''7'']
     (JStr ''GREETING'') None = Inr ''hello''"
proof -
  have a: "E Map.empty (JStr ''GREETING'') (RVal (JStr ''hello'')) =
             Inr [JStr ''GREETING'' \<mapsto> TStr ''hello'']"
    by (simp add: E_string)
  have b: "E_all [JStr ''GREETING'' \<mapsto> TStr ''hello''] [(JStr ''OTHER'', RVal (JNum 7))] =
             Inr [JStr ''GREETING'' \<mapsto> TStr ''hello'', JStr ''OTHER'' \<mapsto> TStr ''7'']"
    by (simp add: E_def bindE_def String_js_def num_to_string_def digits.simps digit_char_def)
  have c: "JStr ''GREETING'' \<notin> fst ` set [(JStr ''OTHER'', RVal (JNum 7))]"
    by simp
  have d: "''hello'' \<noteq> []" by simp
  from resolve_fixed_string_no_args [OF a b c d, of tmpl_ERR_ASSERTION] a b c d show ?thesis
    by simp
qed

section \<open>Resolution of function templates\<close>

text \<open>
  Claim C2: if the code \<open>C\<close> was registered with the function \<open>f\<close> and no later
  registration names \<open>C\<close>, then for every \<^verbatim>\<open>args\<close> (absent or an array) on
  which \<open>f\<close>, applied to the elements of \<^verbatim>\<open>args\<close> as its actual parameters,
  returns a value \<open>v\<close>, \<^verbatim>\<open>message(C, args)\<close> is \<^verbatim>\<open>String(v)\<close>; when \<open>v\<close> is
  already a string, that is \<open>v\<close> itself.
\<close>

theorem resolve_function_template:
  assumes "E m0 (JStr C) (RFun f) = Inr m1"
    and "E_all m1 rs = Inr msgs"
    and "JStr C \<notin> fst ` set rs"
    and "f (actuals args) = Inr v"
  shows "resolve fmt msgs (JStr C) args = String_js v \<and>
         (\<forall>s. v = JStr s \<longrightarrow> resolve fmt msgs (JStr C) args = Inr s)"
proof -
  from assms(1) have "m1 (JStr C) = Some (TFun f)"
    by (auto simp: E_fun)
  with registered_lookup [OF assms(1-3)] have stored: "msgs (JStr C) = Some (TFun f)"
    by simp
  from stored have "resolve fmt msgs (JStr C) args = String_js v"
    by (simp add: resolve_def message_TFun assms(4) bindE_def)
  then show ?thesis
    by (simp add: String_js_JStr)
qed

theorem resolve_function_template_witness:
  "E Map.empty (JStr ''ERR_INVALID_FLAG'') (RFun tmpl_ERR_INVALID_FLAG) =
     Inr [JStr ''ERR_INVALID_FLAG'' \<mapsto> TFun tmpl_ERR_INVALID_FLAG] \<and>
   E_all [JStr ''ERR_INVALID_FLAG'' \<mapsto> TFun tmpl_ERR_INVALID_FLAG]
         [(JStr ''ERR_INVALID_ARGS'', RVal (JStr ''invalid arguments''))] =
     Inr [JStr ''ERR_INVALID_FLAG'' \<mapsto> TFun tmpl_ERR_INVALID_FLAG,
          JStr ''ERR_INVALID_ARGS'' \<mapsto> TStr ''invalid arguments''] \<and>
   JStr ''ERR_INVALID_FLAG'' \<notin>
     fst ` set [(JStr ''ERR_INVALID_ARGS'', RVal (JStr ''invalid arguments''))] \<and>
   tmpl_ERR_INVALID_FLAG (actuals (Some [JStr ''w+x''])) =
     Inr (JStr ''w+x must use valid flags'') \<and>
   resolve tmpl_ERR_ASSERTION
     [JStr ''ERR_INVALID_FLAG'' \<mapsto> TFun tmpl_ERR_INVALID_FLAG,
      JStr ''ERR_INVALID_ARGS'' \<mapsto> TStr ''invalid arguments'']
     (JStr ''ERR_INVALID_FLAG'') (Some [JStr ''w+x'']) = Inr ''w+x must use valid flags''"
proof -
  have a: "E Map.empty (JStr ''ERR_INVALID_FLAG'') (RFun tmpl_ERR_INVALID_FLAG) =
             Inr [JStr ''ERR_INVALID_FLAG'' \<mapsto> TFun tmpl_ERR_INVALID_FLAG]"
    by (simp add: E_fun)
  have b: "E_all [JStr ''ERR_INVALID_FLAG'' \<mapsto> TFun tmpl_ERR_INVALID_FLAG]
                 [(JStr ''ERR_INVALID_ARGS'', RVal (JStr ''invalid arguments''))] =
             Inr [JStr ''ERR_INVALID_FLAG'' \<mapsto> TFun tmpl_ERR_INVALID_FLAG,
                  JStr ''ERR_INVALID_ARGS'' \<mapsto> TStr ''invalid arguments'']"
    by (simp add: E_string bindE_def)
  have c: "JStr ''ERR_INVALID_FLAG'' \<notin>
             fst ` set [(JStr ''ERR_INVALID_ARGS'', RVal (JStr ''invalid arguments''))]"
    by simp
  have d: "tmpl_ERR_INVALID_FLAG (actuals (Some [JStr ''w+x''])) =
             Inr (JStr ''w+x must use valid flags'')"
    by (simp add: tmpl_ERR_INVALID_FLAG_def param_def bindE_def)
  from resolve_function_template [OF a b c d, of tmpl_ERR_ASSERTION] a b c d show ?thesis
    by (simp add: String_js_JStr)
qed

section \<open>Unregistered and non-string keys\<close>

text \<open>
  Claim C3: if the map results from any run of registrations on the empty map, none
  of which names the string \<open>C\<close>, then \<^verbatim>\<open>message(C, args)\<close> throws, for every
  \<^verbatim>\<open>args\<close>, the assertion error whose message is
  \<^verbatim>\<open>An invalid error message key was used: C.\<close>
\<close>

theorem resolve_unregistered_key:
  assumes "E_all Map.empty rs = Inr msgs"
    and "JStr C \<notin> fst ` set rs"
  shows "resolve fmt msgs (JStr C) args =
           Inl (AssertionError (Some (''An invalid error message key was used: '' @ C @ ''.'')))"
proof -
  from E_all_other_keys [OF assms] have "msgs (JStr C) = None"
    by simp
  then show ?thesis
    by (simp add: resolve_def message_unregistered)
qed

theorem resolve_unregistered_key_witness:
  "E_all Map.empty [(JStr ''ERR_INVALID_ARGS'', RVal (JStr ''invalid arguments''))] =
     Inr [JStr ''ERR_INVALID_ARGS'' \<mapsto> TStr ''invalid arguments''] \<and>
   JStr ''NOT_REGISTERED'' \<notin>
     fst ` set [(JStr ''ERR_INVALID_ARGS'', RVal (JStr ''invalid arguments''))] \<and>
   resolve tmpl_ERR_ASSERTION [JStr ''ERR_INVALID_ARGS'' \<mapsto> TStr ''invalid arguments'']
     (JStr ''NOT_REGISTERED'') (Some [JNum 1]) =
     Inl (AssertionError (Some ''An invalid error message key was used: NOT_REGISTERED.''))"
proof -
  have a: "E_all Map.empty [(JStr ''ERR_INVALID_ARGS'', RVal (JStr ''invalid arguments''))] =
             Inr [JStr ''ERR_INVALID_ARGS'' \<mapsto> TStr ''invalid arguments'']"
    by (simp add: E_string bindE_def)
  have b: "JStr ''NOT_REGISTERED'' \<notin>
             fst ` set [(JStr ''ERR_INVALID_ARGS'', RVal (JStr ''invalid arguments''))]"
    by simp
  from resolve_unregistered_key [OF a b, of tmpl_ERR_ASSERTION "Some [JNum 1]"] a b
  show ?thesis by simp
qed

text \<open>
  Claim C8: for every key that is not a string, \<^verbatim>\<open>message(key, args)\<close> throws the
  assertion error of \<^verbatim>\<open>assert.strictEqual(typeof key, 'string')\<close>, for every
  \<^verbatim>\<open>args\<close> and whatever the map holds, also under that key.
\<close>

theorem resolve_non_string_key:
  assumes "k \<notin> range JStr"
  shows "resolve fmt msgs k args = Inl (AssertionError None)"
proof -
  from assms have "typeof k \<noteq> ''string''"
    by (auto simp: typeof_string_iff)
  then show ?thesis
    by (simp add: resolve_def message_nonstring)
qed

theorem resolve_non_string_key_witness:
  "JNum 5 \<notin> range JStr \<and>
   [JNum 5 \<mapsto> TStr ''five''] (JNum 5) = Some (TStr ''five'') \<and>
   resolve tmpl_ERR_ASSERTION [JNum 5 \<mapsto> TStr ''five''] (JNum 5) (Some []) =
     Inl (AssertionError None)"
proof -
  have a: "JNum 5 \<notin> range JStr" by auto
  from resolve_non_string_key [OF a, of tmpl_ERR_ASSERTION "[JNum 5 \<mapsto> TStr ''five'']" "Some []"] a
  show ?thesis by simp
qed

section \<open>Fixed-string templates with arguments\<close>

text \<open>
  Claim C4 says that every code registered with a fixed string resolves, with a
  non-empty \<^verbatim>\<open>args\<close>, to what the formatter makes of the string followed by
  \<^verbatim>\<open>args\<close>. The truthiness test that stands for the check that the key is
  registered comes before the arguments are looked at: at the input
  \<^verbatim>\<open>E('EMPTY', ''); message('EMPTY', [1])\<close> the code throws the assertion error
  ``An invalid error message key was used: EMPTY.'' and never calls the formatter,
  although a formatter applied to \<^verbatim>\<open>['', 1]\<close> returns a string (here one that
  returns its first argument).
\<close>

theorem resolve_empty_template_with_args_fails:
  "E Map.empty (JStr ''EMPTY'') (RVal (JStr '''')) = Inr [JStr ''EMPTY'' \<mapsto> TStr ''''] \<and>
   tmpl_ERR_ASSERTION [JStr '''', JNum 1] = Inr (JStr '''') \<and>
   resolve tmpl_ERR_ASSERTION [JStr ''EMPTY'' \<mapsto> TStr ''''] (JStr ''EMPTY'') (Some [JNum 1]) =
     Inl (AssertionError (Some ''An invalid error message key was used: EMPTY.''))"
  by (simp add: E_string resolve_def message_TStr_empty tmpl_ERR_ASSERTION_def param_def)

text \<open>
  On every non-empty template the code does what is said: if the code \<open>C\<close> was
  registered with the non-empty fixed string \<open>S\<close> and no later registration names
  \<open>C\<close>, then for every non-empty \<^verbatim>\<open>args\<close> the call \<^verbatim>\<open>message(C, args)\<close> is
  \<^verbatim>\<open>String(util.format(S, ...args))\<close>: it throws what the formatter throws, and
  returns the formatter's result whenever that is a string.
\<close>

theorem resolve_fixed_string_with_args:
  assumes "E m0 (JStr C) (RVal (JStr S)) = Inr m1"
    and "E_all m1 rs = Inr msgs"
    and "JStr C \<notin> fst ` set rs"
    and "S \<noteq> []"
    and "args \<noteq> []"
  shows "resolve fmt msgs (JStr C) (Some args) = bindE (fmt (JStr S # args)) String_js \<and>
         (\<forall>r. fmt (JStr S # args) = Inr (JStr r) \<longrightarrow>
              resolve fmt msgs (JStr C) (Some args) = Inr r)"
proof -
  from assms(1) have "m1 (JStr C) = Some (TStr S)"
    by (auto simp: E_string)
  with registered_lookup [OF assms(1-3)] have stored: "msgs (JStr C) = Some (TStr S)"
    by simp
  from stored assms(4,5)
  have "resolve fmt msgs (JStr C) (Some args) = bindE (fmt (JStr S # args)) String_js"
    by (simp add: resolve_def message_TStr_args)
  then show ?thesis
    by (simp add: bindE_def String_js_JStr)
qed

text \<open>
  An instance, with a formatter that renders its first argument and appends a fixed
  text.
\<close>

theorem resolve_fixed_string_with_args_witness:
  "E Map.empty (JStr ''ERR_X'') (RVal (JStr ''%s is bad'')) =
     Inr [JStr ''ERR_X'' \<mapsto> TStr ''%s is bad''] \<and>
   E_all [JStr ''ERR_X'' \<mapsto> TStr ''%s is bad''] [] = Inr [JStr ''ERR_X'' \<mapsto> TStr ''%s is bad''] \<and>
   JStr ''ERR_X'' \<notin> fst ` set ([] :: (jsval \<times> regval) list) \<and>
   ''%s is bad'' \<noteq> [] \<and>
   [JStr ''v''] \<noteq> [] \<and>
   tmpl_ERR_INVALID_FLAG [JStr ''%s is bad'', JStr ''v''] =
     Inr (JStr ''%s is bad must use valid flags'') \<and>
   resolve tmpl_ERR_INVALID_FLAG [JStr ''ERR_X'' \<mapsto> TStr ''%s is bad''] (JStr ''ERR_X'')
     (Some [JStr ''v'']) = Inr ''%s is bad must use valid flags''"
proof -
  have a: "E Map.empty (JStr ''ERR_X'') (RVal (JStr ''%s is bad'')) =
             Inr [JStr ''ERR_X'' \<mapsto> TStr ''%s is bad'']"
    by (simp add: E_string)
  have b: "E_all [JStr ''ERR_X'' \<mapsto> TStr ''%s is bad''] [] =
             Inr [JStr ''ERR_X'' \<mapsto> TStr ''%s is bad'']"
    by simp
  have c: "JStr ''ERR_X'' \<notin> fst ` set ([] :: (jsval \<times> regval) list)"
    by simp
  have d: "''%s is bad'' \<noteq> []" by simp
  have e: "[JStr ''v''] \<noteq> []" by simp
  have f: "tmpl_ERR_INVALID_FLAG [JStr ''%s is bad'', JStr ''v''] =
             Inr (JStr ''%s is bad must use valid flags'')"
    by (simp add: tmpl_ERR_INVALID_FLAG_def param_def bindE_def)
  from resolve_fixed_string_with_args [OF a b c d e, of tmpl_ERR_INVALID_FLAG] a b c d e f
  show ?thesis by (simp add: bindE_def String_js_JStr)
qed

text \<open>
  Claim C10 says that for every code registered with a fixed string a call of
  \<^verbatim>\<open>message\<close> with a non-empty array prepends the string to the caller's array.
  At the input \<^verbatim>\<open>E('EMPTY', ''); a = [1]; message('EMPTY', a)\<close> the truthiness
  test throws, for a key that is registered, before \<^verbatim>\<open>args.unshift(msg)\<close> is
  reached: the array is left as \<^verbatim>\<open>[1]\<close>.
\<close>

theorem message_empty_template_leaves_args:
  "E Map.empty (JStr ''EMPTY'') (RVal (JStr '''')) = Inr [JStr ''EMPTY'' \<mapsto> TStr ''''] \<and>
   snd (message tmpl_ERR_ASSERTION [JStr ''EMPTY'' \<mapsto> TStr ''''] (JStr ''EMPTY'')
          (Some [JNum 1])) = Some [JNum 1]"
  by (simp add: E_string message_TStr_empty)

text \<open>
  On every non-empty template the code does what is said: if the code \<open>C\<close> was
  registered with the non-empty fixed string \<open>S\<close> and no later registration names
  \<open>C\<close>, then a call \<^verbatim>\<open>message(C, args)\<close> with a non-empty array leaves the
  caller's array with \<open>S\<close> prepended: one more element, in front. This holds
  whether the formatter returns or throws.
\<close>

theorem message_unshift_mutates_args:
  assumes "E m0 (JStr C) (RVal (JStr S)) = Inr m1"
    and "E_all m1 rs = Inr msgs"
    and "JStr C \<notin> fst ` set rs"
    and "S \<noteq> []"
    and "args \<noteq> []"
  shows "snd (message fmt msgs (JStr C) (Some args)) = Some (JStr S # args)"
proof -
  from assms(1) have "m1 (JStr C) = Some (TStr S)"
    by (auto simp: E_string)
  with registered_lookup [OF assms(1-3)] have stored: "msgs (JStr C) = Some (TStr S)"
    by simp
  from stored assms(4,5) show ?thesis
    by (simp add: message_TStr_args)
qed

theorem message_unshift_mutates_args_witness:
  "E Map.empty (JStr ''ERR_INVALID_ARGS'') (RVal (JStr ''invalid arguments'')) =
     Inr [JStr ''ERR_INVALID_ARGS'' \<mapsto> TStr ''invalid arguments''] \<and>
   E_all [JStr ''ERR_INVALID_ARGS'' \<mapsto> TStr ''invalid arguments'']
         [(JStr ''ERR_ASSERTION'', RFun tmpl_ERR_ASSERTION)] =
     Inr [JStr ''ERR_INVALID_ARGS'' \<mapsto> TStr ''invalid arguments'',
          JStr ''ERR_ASSERTION'' \<mapsto> TFun tmpl_ERR_ASSERTION] \<and>
   JStr ''ERR_INVALID_ARGS'' \<notin> fst ` set [(JStr ''ERR_ASSERTION'', RFun tmpl_ERR_ASSERTION)] \<and>
   ''invalid arguments'' \<noteq> [] \<and>
   [JNum 1, JNull] \<noteq> [] \<and>
   snd (message tmpl_ERR_ASSERTION
          [JStr ''ERR_INVALID_ARGS'' \<mapsto> TStr ''invalid arguments'',
           JStr ''ERR_ASSERTION'' \<mapsto> TFun tmpl_ERR_ASSERTION]
          (JStr ''ERR_INVALID_ARGS'') (Some [JNum 1, JNull])) =
     Some [JStr ''invalid arguments'', JNum 1, JNull]"
proof -
  have a: "E Map.empty (JStr ''ERR_INVALID_ARGS'') (RVal (JStr ''invalid arguments'')) =
             Inr [JStr ''ERR_INVALID_ARGS'' \<mapsto> TStr ''invalid arguments'']"
    by (simp add: E_string)
  have b: "E_all [JStr ''ERR_INVALID_ARGS'' \<mapsto> TStr ''invalid arguments'']
                 [(JStr ''ERR_ASSERTION'', RFun tmpl_ERR_ASSERTION)] =
             Inr [JStr ''ERR_INVALID_ARGS'' \<mapsto> TStr ''invalid arguments'',
                  JStr ''ERR_ASSERTION'' \<mapsto> TFun tmpl_ERR_ASSERTION]"
    by (simp add: E_fun bindE_def)
  have c: "JStr ''ERR_INVALID_ARGS'' \<notin>
             fst ` set [(JStr ''ERR_ASSERTION'', RFun tmpl_ERR_ASSERTION)]"
    by simp
  have d: "''invalid arguments'' \<noteq> []" by simp
  have e: "[JNum 1, JNull] \<noteq> []" by simp
  from message_unshift_mutates_args [OF a b c d e, of tmpl_ERR_ASSERTION] a b c d e
  show ?thesis by simp
qed

section \<open>Registering again\<close>

text \<open>
  Claim C9: registering a code \<open>C\<close> with a template \<open>T\<close> a second time right
  after the first leaves the map as it was; and after any run of other registrations
  that succeeds, registering \<open>C\<close> with \<open>T\<close> again succeeds and \<^verbatim>\<open>message\<close>
  behaves on \<open>C\<close>, for every formatter and every \<^verbatim>\<open>args\<close>, as it did after the
  first registration (same outcome, same effect on \<^verbatim>\<open>args\<close>).
\<close>

theorem registration_idempotent:
  assumes "E m0 C T = Inr m1"
    and "E_all m1 rs = Inr m2"
  shows "E m1 C T = Inr m1 \<and>
         (\<exists>m3. E m2 C T = Inr m3 \<and>
               (\<forall>fmt args. message fmt m3 C args = message fmt m1 C args))"
proof -
  from E_succeeds_anywhere [OF assms(1), of m2] obtain m3
    where m3: "E m2 C T = Inr m3" and same: "m3 C = m1 C"
    by blast
  have "\<forall>fmt args. message fmt m3 C args = message fmt m1 C args"
    using message_cong_key [of m3 C m1, OF same] by blast
  with m3 E_twice [OF assms(1)] show ?thesis
    by blast
qed

theorem registration_idempotent_witness:
  "E Map.empty (JStr ''GREETING'') (RVal (JStr ''hello'')) =
     Inr [JStr ''GREETING'' \<mapsto> TStr ''hello''] \<and>
   E_all [JStr ''GREETING'' \<mapsto> TStr ''hello'']
         [(JStr ''OTHER'', RFun tmpl_ERR_ASSERTION), (JStr ''GREETING'', RVal (JStr ''bye''))] =
     Inr [JStr ''GREETING'' \<mapsto> TStr ''hello'', JStr ''OTHER'' \<mapsto> TFun tmpl_ERR_ASSERTION,
          JStr ''GREETING'' \<mapsto> TStr ''bye''] \<and>
   E [JStr ''GREETING'' \<mapsto> TStr ''hello''] (JStr ''GREETING'') (RVal (JStr ''hello'')) =
     Inr [JStr ''GREETING'' \<mapsto> TStr ''hello''] \<and>
   (\<exists>m3. E [JStr ''GREETING'' \<mapsto> TStr ''hello'', JStr ''OTHER'' \<mapsto> TFun tmpl_ERR_ASSERTION,
             JStr ''GREETING'' \<mapsto> TStr ''bye''] (JStr ''GREETING'') (RVal (JStr ''hello'')) = Inr m3 \<and>
         (\<forall>fmt args. message fmt m3 (JStr ''GREETING'') args =
                      message fmt [JStr ''GREETING'' \<mapsto> TStr ''hello''] (JStr ''GREETING'') args))"
proof -
  have a: "E Map.empty (JStr ''GREETING'') (RVal (JStr ''hello'')) =
             Inr [JStr ''GREETING'' \<mapsto> TStr ''hello'']"
    by (simp add: E_string)
  have b: "E_all [JStr ''GREETING'' \<mapsto> TStr ''hello'']
             [(JStr ''OTHER'', RFun tmpl_ERR_ASSERTION), (JStr ''GREETING'', RVal (JStr ''bye''))] =
           Inr [JStr ''GREETING'' \<mapsto> TStr ''hello'', JStr ''OTHER'' \<mapsto> TFun tmpl_ERR_ASSERTION,
                JStr ''GREETING'' \<mapsto> TStr ''bye'']"
    by (simp add: E_string E_fun bindE_def)
  from registration_idempotent [OF a b] a b show ?thesis
    by blast
qed

section \<open>Instances of the classes \<^verbatim>\<open>makeNodeError\<close> returns\<close>

text \<open>
  Claim C5: for every base kind, whenever \<^verbatim>\<open>message(key, args)\<close> returns (the key
  is registered and its template renders), the constructor returns an instance whose
  \<^verbatim>\<open>code\<close> reads as the key it was given, and \<^verbatim>\<open>code\<close> still reads as that key
  after any run of attempted assignments \<^verbatim>\<open>e.code = v\<close>, of any values, in strict or
  sloppy code.
\<close>

theorem code_is_write_once:
  assumes "resolve fmt msgs key (Some args) = Inr m"
  shows "\<exists>e. makeNodeError fmt msgs stack Base key args = Inr e \<and>
             read_code e = Inr key \<and>
             (\<forall>ws. read_code (attempts e ws) = Inr key)"
proof -
  let ?e = "\<lparr>base = Base, own = [''message'' \<mapsto> JStr m, ''stack'' \<mapsto> JStr stack],
             kCode = key\<rparr>"
  have made: "makeNodeError fmt msgs stack Base key args = Inr ?e"
    by (rule makeNodeError_success [OF assms])
  have fresh: "own ?e ''code'' = None" by simp
  have "read_code (attempts ?e ws) = Inr key" for ws
    using attempts_code_kept [OF fresh, of ws] by (simp add: read_code_def get_code_def)
  moreover have "read_code ?e = Inr key"
    by (simp add: read_code_def get_code_def)
  ultimately show ?thesis using made by blast
qed

theorem code_is_write_once_witness:
  "resolve tmpl_ERR_ASSERTION [JStr ''ERR_INVALID_ARGS'' \<mapsto> TStr ''invalid arguments'']
     (JStr ''ERR_INVALID_ARGS'') (Some []) = Inr ''invalid arguments'' \<and>
   (\<exists>e. makeNodeError tmpl_ERR_ASSERTION
           [JStr ''ERR_INVALID_ARGS'' \<mapsto> TStr ''invalid arguments''] ''at f'' Error_kind
           (JStr ''ERR_INVALID_ARGS'') [] = Inr e \<and>
        read_code e = Inr (JStr ''ERR_INVALID_ARGS'') \<and>
        read_code (attempts e [(False, JStr ''OTHER''), (True, JNum 1), (False, JUndefined)]) =
          Inr (JStr ''ERR_INVALID_ARGS''))"
proof -
  have a: "resolve tmpl_ERR_ASSERTION [JStr ''ERR_INVALID_ARGS'' \<mapsto> TStr ''invalid arguments'']
             (JStr ''ERR_INVALID_ARGS'') (Some []) = Inr ''invalid arguments''"
    by (simp add: resolve_def message_TStr_no_args)
  from code_is_write_once [OF a, of "''at f''" Error_kind] a show ?thesis
    by blast
qed

text \<open>
  Claim C6: for every base kind whose prototype holds the name \<open>N\<close>, whenever
  \<^verbatim>\<open>message(key, args)\<close> returns, the key is a string \<open>C\<close> and the instance the
  constructor returns has the \<^verbatim>\<open>name\<close> \<open>N[C]\<close>.
\<close>

theorem name_is_base_and_code:
  assumes "resolve fmt msgs key (Some args) = Inr m"
  shows "\<exists>e C. key = JStr C \<and>
               makeNodeError fmt msgs stack Base key args = Inr e \<and>
               read_name e = Inr (JStr (proto_name Base @ ''['' @ C @ '']''))"
proof -
  from resolve_success_string_key [OF assms] obtain C where C: "key = JStr C" by blast
  let ?e = "\<lparr>base = Base, own = [''message'' \<mapsto> JStr m, ''stack'' \<mapsto> JStr stack],
             kCode = key\<rparr>"
  have made: "makeNodeError fmt msgs stack Base key args = Inr ?e"
    by (rule makeNodeError_success [OF assms])
  from C have "read_name ?e = Inr (JStr (proto_name Base @ ''['' @ C @ '']''))"
    by (simp add: read_name_def get_name_def bindE_def)
  with C made show ?thesis by blast
qed

theorem name_is_base_and_code_witness:
  "resolve tmpl_ERR_ASSERTION [JStr ''ERR_INVALID_PORT'' \<mapsto> TFun tmpl_ERR_INVALID_PORT]
     (JStr ''ERR_INVALID_PORT'') (Some [JStr ''port'', JNum 65536]) =
     Inr (CHR 0x22 # ''port'' @ CHR 0x22 # '' argument must be >= 0 and < 65536, got 65536'') \<and>
   (\<exists>e. makeNodeError tmpl_ERR_ASSERTION
           [JStr ''ERR_INVALID_PORT'' \<mapsto> TFun tmpl_ERR_INVALID_PORT] ''at f'' RangeError_kind
           (JStr ''ERR_INVALID_PORT'') [JStr ''port'', JNum 65536] = Inr e \<and>
        read_name e = Inr (JStr ''RangeError[ERR_INVALID_PORT]''))"
proof -
  have a: "resolve tmpl_ERR_ASSERTION [JStr ''ERR_INVALID_PORT'' \<mapsto> TFun tmpl_ERR_INVALID_PORT]
             (JStr ''ERR_INVALID_PORT'') (Some [JStr ''port'', JNum 65536]) =
           Inr (CHR 0x22 # ''port'' @ CHR 0x22 # '' argument must be >= 0 and < 65536, got 65536'')"
    by (simp add: resolve_def message_TFun tmpl_ERR_INVALID_PORT_def param_def bindE_def
          String_js_def num_to_string_def digits.simps digit_char_def)
  from name_is_base_and_code [OF a, of "''at f''" RangeError_kind] a show ?thesis
    by (auto simp: RangeError_kind_def)
qed

text \<open>
  Claim C7: loading the module succeeds, and on its map constructing the class over
  \<^verbatim>\<open>TypeError\<close> with \<^verbatim>\<open>('ERR_INVALID_ARG_TYPE', 'name', 'string', 5)\<close> returns an
  instance with the message
  \<^verbatim>\<open>The "name" argument must be type string. Received type number\<close>, the code
  \<^verbatim>\<open>ERR_INVALID_ARG_TYPE\<close> and the name \<^verbatim>\<open>TypeError[ERR_INVALID_ARG_TYPE]\<close>, whatever
  the formatter and the captured trace are.
\<close>

theorem invalid_arg_type_instance:
  \<open>\<exists>msgs e. module_messages = Inr msgs \<and>
     makeNodeError fmt msgs stack TypeError_kind (JStr ''ERR_INVALID_ARG_TYPE'')
       [JStr ''name'', JStr ''string'', JNum 5] = Inr e \<and>
     read_message e =
       Inr (JStr ''The "name" argument must be type string. Received type number'') \<and>
     read_code e = Inr (JStr ''ERR_INVALID_ARG_TYPE'') \<and>
     read_name e = Inr (JStr ''TypeError[ERR_INVALID_ARG_TYPE]'')\<close>
proof -
  from module_messages_lookup obtain msgs where
    init: "module_messages = Inr msgs" and
    stored: "msgs (JStr ''ERR_INVALID_ARG_TYPE'') = Some (TFun invalidArgType)"
    by blast
  let ?args = "[JStr ''name'', JStr ''string'', JNum 5]"
  let ?m = \<open>''The "name" argument must be type string. Received type number''\<close>
  from stored have res: "resolve fmt msgs (JStr ''ERR_INVALID_ARG_TYPE'') (Some ?args) = Inr ?m"
    by (simp add: resolve_def message_TFun invalidArgType_example bindE_def String_js_def)
  let ?e = "\<lparr>base = TypeError_kind,
             own = [''message'' \<mapsto> JStr ?m, ''stack'' \<mapsto> JStr stack],
             kCode = JStr ''ERR_INVALID_ARG_TYPE''\<rparr>"
  have made: "makeNodeError fmt msgs stack TypeError_kind (JStr ''ERR_INVALID_ARG_TYPE'') ?args =
                Inr ?e"
    by (rule makeNodeError_success [OF res])
  have "read_message ?e = Inr (JStr ?m)"
    by (simp add: read_message_def)
  moreover have "read_code ?e = Inr (JStr ''ERR_INVALID_ARG_TYPE'')"
    by (simp add: read_code_def get_code_def)
  moreover have "read_name ?e = Inr (JStr ''TypeError[ERR_INVALID_ARG_TYPE]'')"
    by (simp add: read_name_def get_name_def bindE_def TypeError_kind_def)
  ultimately show ?thesis using init made by blast
qed

theorem invalid_arg_type_instance_witness:
  \<open>\<exists>msgs e. module_messages = Inr msgs \<and>
     makeNodeError tmpl_ERR_ASSERTION msgs ''at f'' TypeError_kind (JStr ''ERR_INVALID_ARG_TYPE'')
       [JStr ''name'', JStr ''string'', JNum 5] = Inr e \<and>
     read_message e =
       Inr (JStr ''The "name" argument must be type string. Received type number'') \<and>
     read_code e = Inr (JStr ''ERR_INVALID_ARG_TYPE'') \<and>
     read_name e = Inr (JStr ''TypeError[ERR_INVALID_ARG_TYPE]'')\<close>
  by (rule invalid_arg_type_instance [of tmpl_ERR_ASSERTION "''at f''"])

end
